theory Spec2Isabelle
  imports Complex_Main
begin

section \<open>JavaScript numbers and values\<close>

text \<open>
  The kinematics of \<^verbatim>\<open>src/script.js\<close> and \<^verbatim>\<open>src/unnamed/part_001\<close> are written
  with JavaScript numbers. A number is modelled as a real, one of the two infinities, or
  \<open>NaN\<close>: the arithmetic below follows IEEE 754 on the special values (division by
  zero, \<open>Infinity - Infinity\<close>, \<open>0 * Infinity\<close>, \<open>cos Infinity\<close>), and is the
  exact real operation on finite operands. Rounding, overflow of finite results and the
  sign of zero are not part of the model (a zero divisor is taken as \<open>+0\<close>).
  The constant \<^verbatim>\<open>Math.PI\<close> is modelled twice, see \<open>Math_PI\<close> and \<open>PI_binary64\<close>
  below.
\<close>

datatype jsnum = Num real | PosInf | NegInf | NaN

fun js_add :: "jsnum \<Rightarrow> jsnum \<Rightarrow> jsnum" where
  "js_add (Num a) (Num b) = Num (a + b)"
| "js_add (Num a) PosInf = PosInf"
| "js_add (Num a) NegInf = NegInf"
| "js_add (Num a) NaN = NaN"
| "js_add PosInf (Num b) = PosInf"
| "js_add PosInf PosInf = PosInf"
| "js_add PosInf NegInf = NaN"
| "js_add PosInf NaN = NaN"
| "js_add NegInf (Num b) = NegInf"
| "js_add NegInf PosInf = NaN"
| "js_add NegInf NegInf = NegInf"
| "js_add NegInf NaN = NaN"
| "js_add NaN b = NaN"

fun js_sub :: "jsnum \<Rightarrow> jsnum \<Rightarrow> jsnum" where
  "js_sub (Num a) (Num b) = Num (a - b)"
| "js_sub (Num a) PosInf = NegInf"
| "js_sub (Num a) NegInf = PosInf"
| "js_sub (Num a) NaN = NaN"
| "js_sub PosInf (Num b) = PosInf"
| "js_sub PosInf PosInf = NaN"
| "js_sub PosInf NegInf = PosInf"
| "js_sub PosInf NaN = NaN"
| "js_sub NegInf (Num b) = NegInf"
| "js_sub NegInf PosInf = NegInf"
| "js_sub NegInf NegInf = NaN"
| "js_sub NegInf NaN = NaN"
| "js_sub NaN b = NaN"

fun js_mul :: "jsnum \<Rightarrow> jsnum \<Rightarrow> jsnum" where
  "js_mul (Num a) (Num b) = Num (a * b)"
| "js_mul (Num a) PosInf = (if a = 0 then NaN else if 0 < a then PosInf else NegInf)"
| "js_mul (Num a) NegInf = (if a = 0 then NaN else if 0 < a then NegInf else PosInf)"
| "js_mul (Num a) NaN = NaN"
| "js_mul PosInf (Num b) = (if b = 0 then NaN else if 0 < b then PosInf else NegInf)"
| "js_mul PosInf PosInf = PosInf"
| "js_mul PosInf NegInf = NegInf"
| "js_mul PosInf NaN = NaN"
| "js_mul NegInf (Num b) = (if b = 0 then NaN else if 0 < b then NegInf else PosInf)"
| "js_mul NegInf PosInf = NegInf"
| "js_mul NegInf NegInf = PosInf"
| "js_mul NegInf NaN = NaN"
| "js_mul NaN b = NaN"

fun js_div :: "jsnum \<Rightarrow> jsnum \<Rightarrow> jsnum" where
  "js_div (Num a) (Num b) =
     (if b = 0 then (if a = 0 then NaN else if 0 < a then PosInf else NegInf)
      else Num (a / b))"
| "js_div (Num a) PosInf = Num 0"
| "js_div (Num a) NegInf = Num 0"
| "js_div (Num a) NaN = NaN"
| "js_div PosInf (Num b) = (if 0 \<le> b then PosInf else NegInf)"
| "js_div PosInf PosInf = NaN"
| "js_div PosInf NegInf = NaN"
| "js_div PosInf NaN = NaN"
| "js_div NegInf (Num b) = (if 0 \<le> b then NegInf else PosInf)"
| "js_div NegInf PosInf = NaN"
| "js_div NegInf NegInf = NaN"
| "js_div NegInf NaN = NaN"
| "js_div NaN b = NaN"

text \<open>\<^verbatim>\<open>Math.cos\<close> and \<^verbatim>\<open>Math.sin\<close>: \<open>NaN\<close> on an infinity or on \<open>NaN\<close>.\<close>

fun Math_cos :: "jsnum \<Rightarrow> jsnum" where
  "Math_cos (Num a) = Num (cos a)"
| "Math_cos PosInf = NaN"
| "Math_cos NegInf = NaN"
| "Math_cos NaN = NaN"

fun Math_sin :: "jsnum \<Rightarrow> jsnum" where
  "Math_sin (Num a) = Num (sin a)"
| "Math_sin PosInf = NaN"
| "Math_sin NegInf = NaN"
| "Math_sin NaN = NaN"

text \<open>
  \<^verbatim>\<open>Math.PI\<close> in \<^verbatim>\<open>update\<close>, where the position is compared with a formula in
  \<open>\<pi>\<close> and the difference between the constant and \<open>\<pi>\<close> is part of the rounding
  left out: the constant stands for \<open>\<pi>\<close> itself.
\<close>

definition Math_PI :: jsnum where
  "Math_PI = Num pi"

text \<open>
  The value \<^verbatim>\<open>Math.PI\<close> has in the program: the binary64 number nearest to \<open>\<pi>\<close>,
  \<open>884279719003555 / 2\<^sup>4\<^sup>8 = 3.141592653589793115997963...\<close>, a little below
  \<open>\<pi>\<close>. It is used in \<^verbatim>\<open>setupOrbit\<close>, where the first and the last point of the
  path are two computed values compared with each other: whether they are the same
  point depends on \<open>sin (2 * Math.PI)\<close>, which is not \<open>sin (2\<pi>)\<close>. The closing
  angle \<^verbatim>\<open>(128 / 128) * Math.PI * 2\<close> is computed without rounding in binary64.
\<close>

definition PI_binary64 :: real where
  "PI_binary64 = 884279719003555 / 281474976710656"

text \<open>
  The values that reach the kinematics: a property that is missing from a configuration
  object reads as \<open>undefined\<close>; the catalog holds numbers and nested object literals;
  the flag \<^verbatim>\<open>isSun\<close> of \<^verbatim>\<open>part_001\<close> is a boolean. An object literal is the list of
  its properties in the order they are written.
\<close>

datatype jsval =
    Undefined
  | Boolean bool
  | Number jsnum
  | Object "(string \<times> jsval) list"

text \<open>Truthiness, as tested by \<^verbatim>\<open>if (v)\<close> and \<^verbatim>\<open>v ? a : b\<close>.\<close>

fun truthy :: "jsval \<Rightarrow> bool" where
  "truthy Undefined = False"
| "truthy (Boolean b) = b"
| "truthy (Number (Num a)) = (a \<noteq> 0)"
| "truthy (Number PosInf) = True"
| "truthy (Number NegInf) = True"
| "truthy (Number NaN) = False"
| "truthy (Object ps) = True"

text \<open>The conversion applied to an operand of \<^verbatim>\<open>*\<close>, \<^verbatim>\<open>/\<close> and \<^verbatim>\<open>-\<close>.\<close>

fun ToNumber :: "jsval \<Rightarrow> jsnum" where
  "ToNumber Undefined = NaN"
| "ToNumber (Boolean b) = (if b then Num 1 else Num 0)"
| "ToNumber (Number n) = n"
| "ToNumber (Object ps) = NaN"

text \<open>Reading a property of an object literal: \<open>undefined\<close> when it is not there.\<close>

definition get_prop :: "(string \<times> jsval) list \<Rightarrow> string \<Rightarrow> jsval" where
  "get_prop obj k = (case map_of obj k of None \<Rightarrow> Undefined | Some v \<Rightarrow> v)"

text \<open>The spread \<^verbatim>\<open>{...v}\<close> of a value into an object literal.\<close>

fun spread :: "jsval \<Rightarrow> (string \<times> jsval) list" where
  "spread (Object ps) = ps"
| "spread Undefined = []"
| "spread (Boolean b) = []"
| "spread (Number n) = []"

section \<open>The body catalog of \<^verbatim>\<open>src/script.js\<close>\<close>

definition SCALE_FACTOR :: jsnum where
  "SCALE_FACTOR = js_div (Num 1) (Num 100000)"

definition SUN :: "(string \<times> jsval) list" where
  "SUN =
    [(''radius'', Number (js_mul (Num 6963) SCALE_FACTOR)),
     (''rotationPeriod'', Number (Num 27)),
     (''axialTilt'', Number (Num 7.25)),
     (''position'', Object [(''x'', Number (Num 0)), (''y'', Number (Num 0)),
                            (''z'', Number (Num 0))])]"

definition MERCURY :: "(string \<times> jsval) list" where
  "MERCURY =
    [(''semiMajorAxis'', Number (Num 0.387)),
     (''eccentricity'', Number (Num 0.206)),
     (''orbitalPeriod'', Number (Num 88)),
     (''rotationPeriod'', Number (Num 58.6)),
     (''axialTilt'', Number (Num 0.034)),
     (''radius'', Number (js_mul (Num 2439.7) SCALE_FACTOR))]"

definition VENUS :: "(string \<times> jsval) list" where
  "VENUS =
    [(''semiMajorAxis'', Number (Num 0.723)),
     (''eccentricity'', Number (Num 0.007)),
     (''orbitalPeriod'', Number (Num 224.7)),
     (''rotationPeriod'', Number (Num (- 243))),
     (''axialTilt'', Number (Num 177.4)),
     (''radius'', Number (js_mul (Num 6051.8) SCALE_FACTOR))]"

definition EARTH :: "(string \<times> jsval) list" where
  "EARTH =
    [(''semiMajorAxis'', Number (Num 1)),
     (''eccentricity'', Number (Num 0.017)),
     (''orbitalPeriod'', Number (Num 365.25)),
     (''rotationPeriod'', Number (Num 1)),
     (''axialTilt'', Number (Num 23.44)),
     (''radius'', Number (js_mul (Num 6371) SCALE_FACTOR))]"

definition MARS :: "(string \<times> jsval) list" where
  "MARS =
    [(''semiMajorAxis'', Number (Num 1.524)),
     (''eccentricity'', Number (Num 0.093)),
     (''orbitalPeriod'', Number (Num 687)),
     (''rotationPeriod'', Number (Num 1.03)),
     (''axialTilt'', Number (Num 25.19)),
     (''radius'', Number (js_mul (Num 3389.5) SCALE_FACTOR))]"

definition JUPITER :: "(string \<times> jsval) list" where
  "JUPITER =
    [(''semiMajorAxis'', Number (Num 5.203)),
     (''eccentricity'', Number (Num 0.048)),
     (''orbitalPeriod'', Number (Num 4333)),
     (''rotationPeriod'', Number (Num 0.41)),
     (''axialTilt'', Number (Num 3.13)),
     (''radius'', Number (js_mul (Num 69911) SCALE_FACTOR))]"

definition SATURN :: "(string \<times> jsval) list" where
  "SATURN =
    [(''semiMajorAxis'', Number (Num 9.537)),
     (''eccentricity'', Number (Num 0.054)),
     (''orbitalPeriod'', Number (Num 10759)),
     (''rotationPeriod'', Number (Num 0.44)),
     (''axialTilt'', Number (Num 26.73)),
     (''radius'', Number (js_mul (Num 58232) SCALE_FACTOR))]"

definition URANUS :: "(string \<times> jsval) list" where
  "URANUS =
    [(''semiMajorAxis'', Number (Num 19.191)),
     (''eccentricity'', Number (Num 0.047)),
     (''orbitalPeriod'', Number (Num 30687)),
     (''rotationPeriod'', Number (Num (- 0.72))),
     (''axialTilt'', Number (Num 97.77)),
     (''radius'', Number (js_mul (Num 25362) SCALE_FACTOR))]"

definition NEPTUNE :: "(string \<times> jsval) list" where
  "NEPTUNE =
    [(''semiMajorAxis'', Number (Num 30.069)),
     (''eccentricity'', Number (Num 0.009)),
     (''orbitalPeriod'', Number (Num 60190)),
     (''rotationPeriod'', Number (Num 0.67)),
     (''axialTilt'', Number (Num 28.32)),
     (''radius'', Number (js_mul (Num 24622) SCALE_FACTOR))]"

definition PLANETARY_DATA :: "(string \<times> jsval) list" where
  "PLANETARY_DATA =
    [(''SUN'', Object SUN),
     (''MERCURY'', Object MERCURY),
     (''VENUS'', Object VENUS),
     (''EARTH'', Object EARTH),
     (''MARS'', Object MARS),
     (''JUPITER'', Object JUPITER),
     (''SATURN'', Object SATURN),
     (''URANUS'', Object URANUS),
     (''NEPTUNE'', Object NEPTUNE)]"

section \<open>\<^verbatim>\<open>class CelestialBody\<close>\<close>

text \<open>
  The outcomes an operation can have besides returning. The two errors are the ones the
  specification names; the source has no \<^verbatim>\<open>throw\<close> statement, and the model of an
  operation returns \<open>Inl\<close> exactly where the source throws.
\<close>

datatype js_error = ConfigurationError | NotFoundError

datatype Vector3 = Vector3 jsnum jsnum jsnum

text \<open>
  The fields of a body that the kinematics reads or writes. \<open>orbitHolder_position\<close> is
  \<^verbatim>\<open>this.orbitHolder.position\<close>, \<open>mesh_rotation_y\<close> is \<^verbatim>\<open>this.mesh.rotation.y\<close>,
  and \<open>orbitLine\<close> holds the points handed to the line geometry (\<open>None\<close> while the
  field is undefined). Geometry, material and texture are presentation only: no
  statement of \<^verbatim>\<open>update\<close> reads them in \<^verbatim>\<open>script.js\<close>.
\<close>

record CelestialBody =
  orbitalPeriod :: jsval
  semiMajorAxis :: jsval
  eccentricity :: jsval
  currentTime :: jsnum
  rotationSpeed :: jsnum
  mesh_rotation_y :: jsnum
  orbitHolder_position :: Vector3
  orbitLine :: "Vector3 list option"

text \<open>
  The loop of \<^verbatim>\<open>setupOrbit\<close>:
  \<^verbatim>\<open>for (let i = 0; i <= segments; i++) { ...; orbitPoints.push(new THREE.Vector3(x, 0, z)); }\<close>
\<close>

definition orbit_point :: "jsval \<Rightarrow> jsval \<Rightarrow> nat \<Rightarrow> nat \<Rightarrow> Vector3" where
  "orbit_point a e segments i =
     (let theta = js_mul (js_mul (js_div (Num (real i)) (Num (real segments))) (Num PI_binary64))
                    (Num 2);
          x = js_mul (ToNumber a) (Math_cos theta);
          z = js_mul (js_mul (ToNumber a) (Math_sin theta)) (js_sub (Num 1) (ToNumber e))
      in Vector3 x (Num 0) z)"

function setupOrbit_loop :: "jsval \<Rightarrow> jsval \<Rightarrow> nat \<Rightarrow> nat \<Rightarrow> Vector3 list \<Rightarrow> Vector3 list" where
  "setupOrbit_loop a e segments i orbitPoints =
     (if i \<le> segments
      then setupOrbit_loop a e segments (Suc i) (orbitPoints @ [orbit_point a e segments i])
      else orbitPoints)"
  by pat_completeness auto
termination
  by (relation "measure (\<lambda>(a, e, segments, i, orbitPoints). Suc segments - i)") auto

declare setupOrbit_loop.simps [simp del]

definition setupOrbit :: "'a CelestialBody_scheme \<Rightarrow> 'a CelestialBody_scheme" where
  "setupOrbit this =
     this\<lparr>orbitLine := Some (setupOrbit_loop (semiMajorAxis this) (eccentricity this) 128 0 [])\<rparr>"

text \<open>
  The constructor of \<^verbatim>\<open>script.js\<close>. The parameters \<^verbatim>\<open>position\<close> and \<^verbatim>\<open>scale\<close> are
  destructured and never used; a new \<^verbatim>\<open>THREE.Object3D\<close> and a new mesh start at
  position \<open>(0, 0, 0)\<close> and rotation \<open>y = 0\<close>.
\<close>

definition rotationSpeed_of :: "jsval \<Rightarrow> jsnum" where
  "rotationSpeed_of rotationPeriod =
     (if truthy rotationPeriod
      then js_div (js_mul (Num 2) Math_PI)
             (js_mul (js_mul (js_mul (js_mul (ToNumber rotationPeriod) (Num 24)) (Num 60))
                (Num 60)) (Num 60))
      else Num 0)"

definition CelestialBody_constructor :: "(string \<times> jsval) list \<Rightarrow> js_error + CelestialBody" where
  "CelestialBody_constructor config =
     (let this = \<lparr>orbitalPeriod = get_prop config ''orbitalPeriod'',
                  semiMajorAxis = get_prop config ''semiMajorAxis'',
                  eccentricity = get_prop config ''eccentricity'',
                  currentTime = Num 0,
                  rotationSpeed = rotationSpeed_of (get_prop config ''rotationPeriod''),
                  mesh_rotation_y = Num 0,
                  orbitHolder_position = Vector3 (Num 0) (Num 0) (Num 0),
                  orbitLine = None\<rparr>
      in Inr (if truthy (get_prop config ''semiMajorAxis'') then setupOrbit this else this))"

text \<open>\<^verbatim>\<open>update(deltaTime)\<close> of \<^verbatim>\<open>script.js\<close>.\<close>

definition orbital_position :: "'a CelestialBody_scheme \<Rightarrow> Vector3" where
  "orbital_position this =
     (let orbitalProgress =
            js_mul (js_mul (js_div (currentTime this) (ToNumber (orbitalPeriod this))) Math_PI)
              (Num 2);
          x = js_mul (ToNumber (semiMajorAxis this)) (Math_cos orbitalProgress);
          z = js_mul (js_mul (ToNumber (semiMajorAxis this)) (Math_sin orbitalProgress))
                (js_sub (Num 1) (ToNumber (eccentricity this)))
      in Vector3 x (Num 0) z)"

definition update :: "jsnum \<Rightarrow> 'a CelestialBody_scheme \<Rightarrow> 'a CelestialBody_scheme" where
  "update deltaTime this =
     (let this1 = this\<lparr>currentTime := js_add (currentTime this) deltaTime\<rparr>;
          this2 = (if truthy (semiMajorAxis this1)
                   then this1\<lparr>orbitHolder_position := orbital_position this1\<rparr>
                   else this1)
      in this2\<lparr>mesh_rotation_y := js_add (mesh_rotation_y this2) (rotationSpeed this2)\<rparr>)"

text \<open>A run of ticks: \<^verbatim>\<open>update\<close> called once for each \<open>deltaTime\<close>, first to last.\<close>

fun ticks :: "jsnum list \<Rightarrow> 'a CelestialBody_scheme \<Rightarrow> 'a CelestialBody_scheme" where
  "ticks [] this = this"
| "ticks (deltaTime # rest) this = ticks rest (update deltaTime this)"

section \<open>The scene of \<^verbatim>\<open>script.js\<close>\<close>

text \<open>
  The member access \<^verbatim>\<open>PLANETARY_DATA.NAME\<close> is the only query the source makes of
  its catalog (at each call of \<^verbatim>\<open>addCelestialBody\<close>). Reading a property of an
  object literal does not throw. Properties inherited from \<^verbatim>\<open>Object.prototype\<close>
  (such as \<^verbatim>\<open>toString\<close>) are not part of the model.
\<close>

definition PLANETARY_DATA_lookup :: "string \<Rightarrow> js_error + jsval" where
  "PLANETARY_DATA_lookup name = Inr (get_prop PLANETARY_DATA name)"

text \<open>
  \<^verbatim>\<open>SolarSystemScene\<close>: the list of bodies and \<^verbatim>\<open>timeScale\<close>, which the
  constructor sets to 1 and nothing changes. Renderer, camera, controls and lights are
  presentation only. One call of \<^verbatim>\<open>animate\<close> reads \<^verbatim>\<open>this.clock.getDelta()\<close>,
  here the argument \<open>clockDelta\<close>, and updates every body in insertion order; the
  re-scheduling through \<^verbatim>\<open>requestAnimationFrame\<close> belongs to the external driver.
\<close>

record 'b SolarSystemScene =
  celestialBodies :: "'b list"
  timeScale :: jsnum

definition SolarSystemScene_constructor :: "'b SolarSystemScene" where
  "SolarSystemScene_constructor = \<lparr>celestialBodies = [], timeScale = Num 1\<rparr>"

definition addCelestialBody ::
  "(string \<times> jsval) list \<Rightarrow> CelestialBody SolarSystemScene
   \<Rightarrow> js_error + CelestialBody SolarSystemScene" where
  "addCelestialBody bodyConfig scene =
     (case CelestialBody_constructor bodyConfig of
        Inl err \<Rightarrow> Inl err
      | Inr body \<Rightarrow> Inr (scene\<lparr>celestialBodies := celestialBodies scene @ [body]\<rparr>))"

definition animate :: "jsnum \<Rightarrow> CelestialBody SolarSystemScene \<Rightarrow> CelestialBody SolarSystemScene" where
  "animate clockDelta scene =
     (let deltaTime = js_mul clockDelta (timeScale scene)
      in scene\<lparr>celestialBodies := map (update deltaTime) (celestialBodies scene)\<rparr>)"

section \<open>The variant \<^verbatim>\<open>src/unnamed/part_001\<close>\<close>

text \<open>
  \<^verbatim>\<open>part_001\<close> repeats the class with a shader material for the sun. Its
  \<^verbatim>\<open>update\<close> also writes two shader uniforms, kept here as
  \<open>material_uniforms_time\<close> (\<open>Some\<close> exactly when the material is a
  \<^verbatim>\<open>ShaderMaterial\<close>) and \<open>glow_uniforms_time\<close> (\<open>Some\<close> exactly when
  \<^verbatim>\<open>this.glow\<close> exists). \<^verbatim>\<open>setupOrbit\<close> is the same text as in \<^verbatim>\<open>script.js\<close>.
\<close>

record CelestialBody_part001 = CelestialBody +
  material_uniforms_time :: "jsnum option"
  glow_uniforms_time :: "jsnum option"

definition CelestialBody_constructor_part001 ::
  "(string \<times> jsval) list \<Rightarrow> js_error + CelestialBody_part001" where
  "CelestialBody_constructor_part001 config =
     (let isSun = (case get_prop config ''isSun'' of Undefined \<Rightarrow> Boolean False | v \<Rightarrow> v);
          this = \<lparr>orbitalPeriod = get_prop config ''orbitalPeriod'',
                  semiMajorAxis = get_prop config ''semiMajorAxis'',
                  eccentricity = get_prop config ''eccentricity'',
                  currentTime = Num 0,
                  rotationSpeed = rotationSpeed_of (get_prop config ''rotationPeriod''),
                  mesh_rotation_y = Num 0,
                  orbitHolder_position = Vector3 (Num 0) (Num 0) (Num 0),
                  orbitLine = None,
                  material_uniforms_time = (if truthy isSun then Some (Num 0) else None),
                  glow_uniforms_time = (if truthy isSun then Some (Num 0) else None)\<rparr>
      in Inr (if truthy (get_prop config ''semiMajorAxis'') then setupOrbit this else this))"

definition update_part001 :: "jsnum \<Rightarrow> CelestialBody_part001 \<Rightarrow> CelestialBody_part001" where
  "update_part001 deltaTime this =
     (let this1 = this\<lparr>currentTime := js_add (currentTime this) (js_mul deltaTime (Num 20))\<rparr>;
          this2 = (case material_uniforms_time this1 of
                     Some old \<Rightarrow>
                       this1\<lparr>material_uniforms_time := Some (js_div (currentTime this1) (Num 10))\<rparr>
                   | None \<Rightarrow> this1);
          this3 = (case glow_uniforms_time this2 of
                     Some old \<Rightarrow>
                       this2\<lparr>glow_uniforms_time := Some (js_div (currentTime this2) (Num 20))\<rparr>
                   | None \<Rightarrow> this2);
          this4 = (if truthy (semiMajorAxis this3)
                   then this3\<lparr>orbitHolder_position := orbital_position this3\<rparr>
                   else this3)
      in this4\<lparr>mesh_rotation_y := js_add (mesh_rotation_y this4) (rotationSpeed this4)\<rparr>)"

fun ticks_part001 :: "jsnum list \<Rightarrow> CelestialBody_part001 \<Rightarrow> CelestialBody_part001" where
  "ticks_part001 [] this = this"
| "ticks_part001 (deltaTime # rest) this = ticks_part001 rest (update_part001 deltaTime this)"

definition animate_part001 ::
  "jsnum \<Rightarrow> CelestialBody_part001 SolarSystemScene \<Rightarrow> CelestialBody_part001 SolarSystemScene" where
  "animate_part001 clockDelta scene =
     (let deltaTime = js_mul clockDelta (timeScale scene)
      in scene\<lparr>celestialBodies := map (update_part001 deltaTime) (celestialBodies scene)\<rparr>)"

section \<open>Two further configurations\<close>

text \<open>
  The entry \<^verbatim>\<open>EARTH\<close> with \<^verbatim>\<open>orbitalPeriod: 0\<close>, and with \<^verbatim>\<open>semiMajorAxis: 0\<close>:
  objects a caller can pass to \<^verbatim>\<open>addCelestialBody\<close>, used below as concrete inputs.
\<close>

definition zero_period_config :: "(string \<times> jsval) list" where
  "zero_period_config =
    [(''semiMajorAxis'', Number (Num 1)),
     (''eccentricity'', Number (Num 0.017)),
     (''orbitalPeriod'', Number (Num 0)),
     (''rotationPeriod'', Number (Num 1)),
     (''axialTilt'', Number (Num 23.44)),
     (''radius'', Number (js_mul (Num 6371) SCALE_FACTOR))]"

definition zero_axis_config :: "(string \<times> jsval) list" where
  "zero_axis_config =
    [(''semiMajorAxis'', Number (Num 0)),
     (''eccentricity'', Number (Num 0.017)),
     (''orbitalPeriod'', Number (Num 365.25)),
     (''rotationPeriod'', Number (Num 1)),
     (''axialTilt'', Number (Num 23.44)),
     (''radius'', Number (js_mul (Num 6371) SCALE_FACTOR))]"

section \<open>A polynomial for the cosine\<close>

text \<open>
  The Maclaurin polynomial of the cosine of degree 20. It is used to place \<open>\<pi>\<close>
  between \<open>PI_binary64\<close> and \<open>PI_binary64 + 2\<^sup>-\<^sup>5\<^sup>0\<close>.
\<close>

definition cos_poly :: "real \<Rightarrow> real" where
  "cos_poly x = 1 - x ^ 2 / 2 + x ^ 4 / 24 - x ^ 6 / 720 + x ^ 8 / 40320 - x ^ 10 / 3628800 + x ^ 12 / 479001600 - x ^ 14 / 87178291200 + x ^ 16 / 20922789888000 - x ^ 18 / 6402373705728000 + x ^ 20 / 2432902008176640000"

section \<open>Frame lemmas of \<^verbatim>\<open>update\<close>\<close>

lemma update_semiMajorAxis: "semiMajorAxis (update d this) = semiMajorAxis this"
  by (simp add: update_def Let_def)

lemma update_position_stationary:
  "\<not> truthy (semiMajorAxis this) \<Longrightarrow>
   orbitHolder_position (update d this) = orbitHolder_position this"
  by (simp add: update_def Let_def)

lemma ticks_semiMajorAxis: "semiMajorAxis (ticks ds this) = semiMajorAxis this"
  by (induction ds arbitrary: this) (simp_all add: update_semiMajorAxis)

lemma ticks_position_stationary:
  "\<not> truthy (semiMajorAxis this) \<Longrightarrow>
   orbitHolder_position (ticks ds this) = orbitHolder_position this"
  by (induction ds arbitrary: this) (simp_all add: update_semiMajorAxis update_position_stationary)

lemma setupOrbit_frame:
  "semiMajorAxis (setupOrbit this) = semiMajorAxis this"
  "orbitalPeriod (setupOrbit this) = orbitalPeriod this"
  "eccentricity (setupOrbit this) = eccentricity this"
  "currentTime (setupOrbit this) = currentTime this"
  "rotationSpeed (setupOrbit this) = rotationSpeed this"
  "mesh_rotation_y (setupOrbit this) = mesh_rotation_y this"
  "orbitHolder_position (setupOrbit this) = orbitHolder_position this"
  by (simp_all add: setupOrbit_def)

lemma constructor_semiMajorAxis:
  "CelestialBody_constructor config = Inr body \<Longrightarrow>
   semiMajorAxis body = get_prop config ''semiMajorAxis''"
  by (auto simp: CelestialBody_constructor_def Let_def setupOrbit_frame)

lemma constructor_position:
  "CelestialBody_constructor config = Inr body \<Longrightarrow>
   orbitHolder_position body = Vector3 (Num 0) (Num 0) (Num 0)"
  by (auto simp: CelestialBody_constructor_def Let_def setupOrbit_frame)

lemma update_frame:
  "orbitalPeriod (update d this) = orbitalPeriod this"
  "eccentricity (update d this) = eccentricity this"
  "rotationSpeed (update d this) = rotationSpeed this"
  "orbitLine (update d this) = orbitLine this"
  by (simp_all add: update_def Let_def)

lemma update_currentTime: "currentTime (update d this) = js_add (currentTime this) d"
  by (simp add: update_def Let_def)

lemma update_rotation:
  "mesh_rotation_y (update d this) = js_add (mesh_rotation_y this) (rotationSpeed this)"
  by (simp add: update_def Let_def)

lemma update_position_orbiting:
  "truthy (semiMajorAxis this) \<Longrightarrow>
   orbitHolder_position (update d this) =
   orbital_position (this\<lparr>currentTime := js_add (currentTime this) d\<rparr>)"
  by (simp add: update_def Let_def orbital_position_def)

lemma ticks_frame:
  "orbitalPeriod (ticks ds this) = orbitalPeriod this"
  "eccentricity (ticks ds this) = eccentricity this"
  "rotationSpeed (ticks ds this) = rotationSpeed this"
  "orbitLine (ticks ds this) = orbitLine this"
  by (induction ds arbitrary: this) (simp_all add: update_frame)

lemma ticks_currentTime:
  "currentTime this = Num t0 \<Longrightarrow>
   currentTime (ticks (map Num rs) this) = Num (t0 + sum_list rs)"
  by (induction rs arbitrary: this t0) (simp_all add: update_currentTime add.assoc)

lemma orbital_position_finite:
  assumes "semiMajorAxis this = Number (Num a)"
    and "orbitalPeriod this = Number (Num P)" and "P \<noteq> 0"
    and "eccentricity this = Number (Num e)"
    and "currentTime this = Num t"
  shows "orbital_position this =
         Vector3 (Num (a * cos ((t / P) * (2 * pi)))) (Num 0)
                 (Num (a * sin ((t / P) * (2 * pi)) * (1 - e)))"
  using assms
  by (simp add: orbital_position_def Let_def Math_PI_def mult.assoc mult.commute [of pi 2])

lemma constructor_frame:
  assumes "CelestialBody_constructor config = Inr body"
  shows "orbitalPeriod body = get_prop config ''orbitalPeriod''"
    and "eccentricity body = get_prop config ''eccentricity''"
    and "currentTime body = Num 0"
    and "mesh_rotation_y body = Num 0"
    and "rotationSpeed body = rotationSpeed_of (get_prop config ''rotationPeriod'')"
  using assms by (auto simp: CelestialBody_constructor_def Let_def setupOrbit_frame)

lemma constructor_returns:
  "CelestialBody_constructor config = Inr (projr (CelestialBody_constructor config))"
  by (simp add: CelestialBody_constructor_def Let_def)

lemma EARTH_props:
  "get_prop EARTH ''semiMajorAxis'' = Number (Num 1)"
  "get_prop EARTH ''eccentricity'' = Number (Num 0.017)"
  "get_prop EARTH ''orbitalPeriod'' = Number (Num 365.25)"
  "get_prop EARTH ''rotationPeriod'' = Number (Num 1)"
  by (simp_all add: get_prop_def EARTH_def)

lemma SUN_props:
  "get_prop SUN ''semiMajorAxis'' = Undefined"
  "get_prop SUN ''rotationPeriod'' = Number (Num 27)"
  by (simp_all add: get_prop_def SUN_def)

lemma js_add_zero_right: "js_add a (Num 0) = a"
  by (cases a) simp_all

lemma js_mul_NaN_right: "js_mul a NaN = NaN"
  by (cases a) simp_all

lemma orbital_position_cong:
  "currentTime this' = currentTime this \<Longrightarrow> orbitalPeriod this' = orbitalPeriod this \<Longrightarrow>
   semiMajorAxis this' = semiMajorAxis this \<Longrightarrow> eccentricity this' = eccentricity this \<Longrightarrow>
   orbital_position this' = orbital_position this"
  by (simp add: orbital_position_def)

section \<open>The stationary body\<close>

text \<open>
  C3. A body constructed from a configuration without \<^verbatim>\<open>semiMajorAxis\<close> is at the
  origin after every finite run of ticks, whatever the \<open>deltaTime\<close> values are
  (non-negative or not).
\<close>

theorem stationary_never_moves:
  assumes "get_prop config ''semiMajorAxis'' = Undefined"
    and "CelestialBody_constructor config = Inr body"
  shows "orbitHolder_position (ticks ds body) = Vector3 (Num 0) (Num 0) (Num 0)"
proof -
  have "semiMajorAxis body = Undefined"
    using assms by (simp add: constructor_semiMajorAxis)
  then have "\<not> truthy (semiMajorAxis body)"
    by simp
  then have "orbitHolder_position (ticks ds body) = orbitHolder_position body"
    by (rule ticks_position_stationary)
  then show ?thesis
    using assms(2) by (simp add: constructor_position)
qed

theorem stationary_never_moves_witness:
  "get_prop SUN ''semiMajorAxis'' = Undefined \<and>
   \<not> isl (CelestialBody_constructor SUN) \<and>
   orbitHolder_position (ticks [Num 1, Num 2] (projr (CelestialBody_constructor SUN)))
     = Vector3 (Num 0) (Num 0) (Num 0)"
proof -
  have h1: "get_prop SUN ''semiMajorAxis'' = Undefined"
    by (simp add: get_prop_def SUN_def)
  have h2: "CelestialBody_constructor SUN = Inr (projr (CelestialBody_constructor SUN))"
    by (simp add: CelestialBody_constructor_def Let_def)
  have h3: "\<not> isl (CelestialBody_constructor SUN)"
    by (simp add: CelestialBody_constructor_def Let_def)
  show ?thesis
    using h1 h3 stationary_never_moves [OF h1 h2, of "[Num 1, Num 2]"] by simp
qed

section \<open>The orbital position\<close>

text \<open>
  C1. Take a body constructed with a \<^verbatim>\<open>semiMajorAxis\<close> \<open>a\<close> (any number, zero
  included), an \<^verbatim>\<open>orbitalPeriod\<close> \<open>P \<noteq> 0\<close> and an \<^verbatim>\<open>eccentricity\<close> \<open>e\<close>.
  After any run of ticks with finite \<open>deltaTime\<close> values, the tick that brings the
  elapsed time to \<open>t\<close> leaves the body at
  \<open>x = a * cos ((t / P) * 2\<pi>)\<close>, \<open>y = 0\<close>, \<open>z = a * sin ((t / P) * 2\<pi>) * (1 - e)\<close>.
  The claim's ranges \<open>P > 0\<close>, \<open>0 \<le> e < 1\<close> and \<open>t \<ge> 0\<close> are instances. Numbers are
  exact reals here: rounding is outside the model.
\<close>

theorem update_position_formula:
  assumes "CelestialBody_constructor config = Inr body0"
    and "get_prop config ''semiMajorAxis'' = Number (Num a)"
    and "get_prop config ''orbitalPeriod'' = Number (Num P)" and "P \<noteq> 0"
    and "get_prop config ''eccentricity'' = Number (Num e)"
    and "body = update (Num d) (ticks (map Num rs) body0)"
    and "t = sum_list rs + d"
  shows "currentTime body = Num t \<and>
         orbitHolder_position body =
           Vector3 (Num (a * cos ((t / P) * (2 * pi)))) (Num 0)
                   (Num (a * sin ((t / P) * (2 * pi)) * (1 - e)))"
proof -
  let ?prev = "ticks (map Num rs) body0"
  have a: "semiMajorAxis ?prev = Number (Num a)"
    using assms(1,2) by (simp add: ticks_semiMajorAxis constructor_semiMajorAxis)
  have p: "orbitalPeriod ?prev = Number (Num P)"
    using assms(1,3) by (simp add: ticks_frame constructor_frame)
  have e: "eccentricity ?prev = Number (Num e)"
    using assms(1,5) by (simp add: ticks_frame constructor_frame)
  have "currentTime ?prev = Num (0 + sum_list rs)"
    using assms(1) by (intro ticks_currentTime) (simp add: constructor_frame)
  then have t: "currentTime body = Num t"
    using assms(6,7) by (simp add: update_currentTime)
  have pos: "orbitHolder_position body =
      Vector3 (Num (a * cos ((t / P) * (2 * pi)))) (Num 0)
              (Num (a * sin ((t / P) * (2 * pi)) * (1 - e)))"
  proof (cases "a = 0")
    case True
    then have "\<not> truthy (semiMajorAxis body0)"
      using assms(1,2) by (simp add: constructor_semiMajorAxis)
    then have "orbitHolder_position ?prev = orbitHolder_position body0"
      by (rule ticks_position_stationary)
    moreover have "\<not> truthy (semiMajorAxis ?prev)"
      using a True by simp
    ultimately have "orbitHolder_position body = Vector3 (Num 0) (Num 0) (Num 0)"
      using assms(1,6) by (simp add: update_position_stationary constructor_position)
    then show ?thesis
      using True by simp
  next
    case False
    then have "truthy (semiMajorAxis ?prev)"
      using a by simp
    then have "orbitHolder_position body =
        orbital_position (?prev\<lparr>currentTime := js_add (currentTime ?prev) (Num d)\<rparr>)"
      using assms(6) by (simp add: update_position_orbiting)
    moreover have "js_add (currentTime ?prev) (Num d) = Num t"
      using t assms(6) by (simp add: update_currentTime)
    ultimately show ?thesis
      using a p e assms(4) by (simp add: orbital_position_finite)
  qed
  show ?thesis
    using t pos by simp
qed

theorem update_position_formula_witness:
  "get_prop EARTH ''semiMajorAxis'' = Number (Num 1) \<and>
   get_prop EARTH ''orbitalPeriod'' = Number (Num 365.25) \<and> (365.25 :: real) \<noteq> 0 \<and>
   get_prop EARTH ''eccentricity'' = Number (Num 0.017) \<and>
   \<not> isl (CelestialBody_constructor EARTH) \<and>
   currentTime (update (Num 2) (ticks (map Num [1]) (projr (CelestialBody_constructor EARTH))))
     = Num 3 \<and>
   orbitHolder_position
       (update (Num 2) (ticks (map Num [1]) (projr (CelestialBody_constructor EARTH))))
     = Vector3 (Num (1 * cos ((3 / 365.25) * (2 * pi)))) (Num 0)
               (Num (1 * sin ((3 / 365.25) * (2 * pi)) * (1 - 0.017)))"
proof -
  have nz: "(365.25 :: real) \<noteq> 0" by simp
  have ok: "\<not> isl (CelestialBody_constructor EARTH)"
    by (simp add: CelestialBody_constructor_def Let_def)
  have t: "(3 :: real) = sum_list [1] + 2" by simp
  show ?thesis
    using update_position_formula [OF constructor_returns EARTH_props(1) EARTH_props(3) nz
        EARTH_props(2) refl t] EARTH_props nz ok
    by simp
qed



section \<open>A tick with \<open>deltaTime = 0\<close>\<close>

text \<open>
  C4, as the code has it. A tick with \<open>deltaTime = 0\<close> leaves the elapsed time as it
  was, and adds \<^verbatim>\<open>rotationSpeed\<close> to the spin angle as every tick does (the spin
  is advanced per frame, whatever \<open>deltaTime\<close> is). It leaves the position of a
  stationary body as it was, and the position of any body that an earlier tick has
  already placed. The first tick of an orbiting body moves it from the origin, where
  the constructor leaves it, onto its orbit.
\<close>

theorem zero_tick:
  "currentTime (update (Num 0) this) = currentTime this \<and>
   mesh_rotation_y (update (Num 0) this) = js_add (mesh_rotation_y this) (rotationSpeed this) \<and>
   (\<not> truthy (semiMajorAxis this) \<longrightarrow>
      orbitHolder_position (update (Num 0) this) = orbitHolder_position this) \<and>
   orbitHolder_position (update (Num 0) (update d this)) = orbitHolder_position (update d this)"
proof -
  have t: "currentTime (update (Num 0) this) = currentTime this"
    by (simp add: update_currentTime js_add_zero_right)
  have r: "mesh_rotation_y (update (Num 0) this) = js_add (mesh_rotation_y this) (rotationSpeed this)"
    by (rule update_rotation)
  have s: "\<not> truthy (semiMajorAxis this) \<longrightarrow>
      orbitHolder_position (update (Num 0) this) = orbitHolder_position this"
    by (simp add: update_position_stationary)
  have p: "orbitHolder_position (update (Num 0) (update d this)) = orbitHolder_position (update d this)"
  proof (cases "truthy (semiMajorAxis this)")
    case False
    then show ?thesis
      by (simp add: update_position_stationary update_semiMajorAxis)
  next
    case True
    then have "orbitHolder_position (update (Num 0) (update d this)) =
        orbital_position ((update d this)\<lparr>currentTime := js_add (currentTime (update d this)) (Num 0)\<rparr>)"
      by (simp add: update_position_orbiting update_semiMajorAxis)
    also have "\<dots> = orbital_position (this\<lparr>currentTime := js_add (currentTime this) d\<rparr>)"
      by (rule orbital_position_cong)
         (simp_all add: js_add_zero_right update_currentTime update_frame update_semiMajorAxis)
    also have "\<dots> = orbitHolder_position (update d this)"
      using True by (simp add: update_position_orbiting)
    finally show ?thesis .
  qed
  show ?thesis
    using t r s p by simp
qed

theorem zero_tick_witness:
  "\<not> truthy (semiMajorAxis (projr (CelestialBody_constructor SUN))) \<and>
   orbitHolder_position (update (Num 0) (projr (CelestialBody_constructor SUN)))
     = orbitHolder_position (projr (CelestialBody_constructor SUN)) \<and>
   currentTime (update (Num 0) (projr (CelestialBody_constructor SUN)))
     = currentTime (projr (CelestialBody_constructor SUN))"
proof -
  have "\<not> truthy (semiMajorAxis (projr (CelestialBody_constructor SUN)))"
    by (simp add: constructor_semiMajorAxis [OF constructor_returns] SUN_props)
  then show ?thesis
    using zero_tick [of "projr (CelestialBody_constructor SUN)" "Num 1"] by simp
qed

theorem zero_tick_counterexample:
  "mesh_rotation_y (update (Num 0) (projr (CelestialBody_constructor EARTH)))
     \<noteq> mesh_rotation_y (projr (CelestialBody_constructor EARTH)) \<and>
   orbitHolder_position (update (Num 0) (projr (CelestialBody_constructor EARTH)))
     \<noteq> orbitHolder_position (projr (CelestialBody_constructor EARTH))"
proof -
  let ?b = "projr (CelestialBody_constructor EARTH)"
  have rs: "rotationSpeed ?b = Num (2 * pi / 5184000)"
    by (simp add: constructor_frame [OF constructor_returns] EARTH_props rotationSpeed_of_def
        Math_PI_def)
  have r0: "mesh_rotation_y ?b = Num 0"
    by (rule constructor_frame [OF constructor_returns])
  have rot: "mesh_rotation_y (update (Num 0) ?b) \<noteq> mesh_rotation_y ?b"
    by (simp add: update_rotation rs r0)
  have a: "semiMajorAxis ?b = Number (Num 1)"
    by (simp add: constructor_semiMajorAxis [OF constructor_returns] EARTH_props)
  have p: "orbitalPeriod ?b = Number (Num 365.25)"
    by (simp add: constructor_frame [OF constructor_returns] EARTH_props)
  have e: "eccentricity ?b = Number (Num 0.017)"
    by (simp add: constructor_frame [OF constructor_returns] EARTH_props)
  have c: "currentTime ?b = Num 0"
    by (rule constructor_frame [OF constructor_returns])
  have "orbitHolder_position (update (Num 0) ?b) = Vector3 (Num 1) (Num 0) (Num 0)"
    using a p e c
    by (simp add: update_position_orbiting orbital_position_def Let_def Math_PI_def)
  then have pos: "orbitHolder_position (update (Num 0) ?b) \<noteq> orbitHolder_position ?b"
    by (simp add: constructor_position [OF constructor_returns])
  show ?thesis
    using rot pos by simp
qed

section \<open>The rotation speed\<close>

lemma rotationSpeed_of_finite:
  "rotationSpeed_of (Number (Num r)) =
     (if r = 0 then Num 0 else Num (sgn r * (2 * pi / (\<bar>r\<bar> * 5184000))))"
proof (cases "r = 0")
  case True
  then show ?thesis by (simp add: rotationSpeed_of_def)
next
  case False
  have "2 * pi / (r * 24 * 60 * 60 * 60) = sgn r * (2 * pi / (\<bar>r\<bar> * 5184000))"
    using False by (cases "0 < r") (simp_all add: sgn_if)
  then show ?thesis
    using False by (simp add: rotationSpeed_of_def Math_PI_def)
qed

text \<open>
  C5, as the code has it. The \<^verbatim>\<open>rotationSpeed\<close> set by the constructor, and kept by
  every tick, is 0 for a \<^verbatim>\<open>rotationPeriod\<close> of 0 and otherwise
  \<open>2\<pi> / (|rotationPeriod| * C)\<close> with the sign of \<^verbatim>\<open>rotationPeriod\<close>, where the
  constant is \<open>C = 24 * 60 * 60 * 60 = 5184000\<close> (the frames of one day at 60 frames
  per second), not 86400.
\<close>

theorem rotationSpeed_conversion:
  assumes "CelestialBody_constructor config = Inr body"
    and "get_prop config ''rotationPeriod'' = Number (Num r)"
  shows "rotationSpeed (ticks ds body) =
           (if r = 0 then Num 0 else Num (sgn r * (2 * pi / (\<bar>r\<bar> * 5184000))))"
  using assms by (simp add: ticks_frame constructor_frame rotationSpeed_of_finite)

theorem rotationSpeed_conversion_witness:
  "\<not> isl (CelestialBody_constructor VENUS) \<and>
   get_prop VENUS ''rotationPeriod'' = Number (Num (- 243)) \<and>
   rotationSpeed (ticks [Num 1] (projr (CelestialBody_constructor VENUS)))
     = Num (- (2 * pi / (243 * 5184000)))"
proof -
  have ok: "\<not> isl (CelestialBody_constructor VENUS)"
    by (simp add: CelestialBody_constructor_def Let_def)
  have rp: "get_prop VENUS ''rotationPeriod'' = Number (Num (- 243))"
    by (simp add: get_prop_def VENUS_def)
  show ?thesis
    using rotationSpeed_conversion [OF constructor_returns rp, of "[Num 1]"] ok rp by simp
qed

theorem rotationSpeed_conversion_counterexample:
  "rotationSpeed (projr (CelestialBody_constructor EARTH)) \<noteq> Num (2 * pi / (\<bar>1\<bar> * 86400))"
  by (simp add: constructor_frame [OF constructor_returns] EARTH_props rotationSpeed_of_finite)

section \<open>A zero orbital period\<close>

lemma orbital_position_zero_period:
  assumes "orbitalPeriod this = Number (Num 0)"
  shows "orbital_position this = Vector3 NaN (Num 0) NaN"
proof -
  have "Math_cos (js_mul (js_mul (js_div (currentTime this) (Num 0)) Math_PI) (Num 2)) = NaN"
    by (cases "currentTime this") (simp_all add: Math_PI_def)
  moreover have "Math_sin (js_mul (js_mul (js_div (currentTime this) (Num 0)) Math_PI) (Num 2)) = NaN"
    by (cases "currentTime this") (simp_all add: Math_PI_def)
  ultimately show ?thesis
    using assms by (simp add: orbital_position_def Let_def js_mul_NaN_right)
qed

lemma zero_period_config_props:
  "get_prop zero_period_config ''orbitalPeriod'' = Number (Num 0)"
  "get_prop zero_period_config ''semiMajorAxis'' = Number (Num 1)"
  by (simp_all add: get_prop_def zero_period_config_def)

text \<open>
  C6, as the code has it. The constructor validates nothing: with \<^verbatim>\<open>orbitalPeriod\<close>
  equal to 0 and a truthy \<^verbatim>\<open>semiMajorAxis\<close> it returns a body, and every later tick
  (whatever the \<open>deltaTime\<close> values) sets the position to \<open>(NaN, 0, NaN)\<close>: the
  quotient \<^verbatim>\<open>currentTime / orbitalPeriod\<close> is \<open>NaN\<close> or an infinity, and its cosine
  and sine are \<open>NaN\<close>.
\<close>

theorem zero_orbitalPeriod_gives_NaN:
  assumes "get_prop config ''orbitalPeriod'' = Number (Num 0)"
    and "truthy (get_prop config ''semiMajorAxis'')"
  shows "\<not> isl (CelestialBody_constructor config) \<and>
         orbitHolder_position (update d (ticks ds (projr (CelestialBody_constructor config))))
           = Vector3 NaN (Num 0) NaN"
proof -
  let ?prev = "ticks ds (projr (CelestialBody_constructor config))"
  have ok: "\<not> isl (CelestialBody_constructor config)"
    by (simp add: CelestialBody_constructor_def Let_def)
  have a: "truthy (semiMajorAxis ?prev)"
    using assms(2) by (simp add: ticks_semiMajorAxis constructor_semiMajorAxis [OF constructor_returns])
  have p: "orbitalPeriod ?prev = Number (Num 0)"
    using assms(1) by (simp add: ticks_frame constructor_frame [OF constructor_returns])
  have "orbitHolder_position (update d ?prev) =
      orbital_position (?prev\<lparr>currentTime := js_add (currentTime ?prev) d\<rparr>)"
    using a by (rule update_position_orbiting)
  also have "\<dots> = Vector3 NaN (Num 0) NaN"
    using p by (intro orbital_position_zero_period) simp
  finally show ?thesis
    using ok by simp
qed

theorem zero_orbitalPeriod_gives_NaN_witness:
  "get_prop zero_period_config ''orbitalPeriod'' = Number (Num 0) \<and>
   truthy (get_prop zero_period_config ''semiMajorAxis'') \<and>
   \<not> isl (CelestialBody_constructor zero_period_config) \<and>
   orbitHolder_position
      (update (Num 2) (ticks [Num 1] (projr (CelestialBody_constructor zero_period_config))))
     = Vector3 NaN (Num 0) NaN"
proof -
  have t: "truthy (get_prop zero_period_config ''semiMajorAxis'')"
    by (simp add: zero_period_config_props)
  show ?thesis
    using zero_orbitalPeriod_gives_NaN [OF zero_period_config_props(1) t, of "Num 2" "[Num 1]"]
      zero_period_config_props(1) t
    by simp
qed

theorem zero_orbitalPeriod_counterexample:
  "CelestialBody_constructor zero_period_config \<noteq> Inl ConfigurationError \<and>
   orbitHolder_position (update (Num 1) (projr (CelestialBody_constructor zero_period_config)))
     = Vector3 NaN (Num 0) NaN"
proof -
  let ?b = "projr (CelestialBody_constructor zero_period_config)"
  have ok: "CelestialBody_constructor zero_period_config \<noteq> Inl ConfigurationError"
    by (simp add: CelestialBody_constructor_def Let_def)
  have a: "truthy (semiMajorAxis ?b)"
    by (simp add: constructor_semiMajorAxis [OF constructor_returns] zero_period_config_props)
  have p: "orbitalPeriod ?b = Number (Num 0)"
    by (simp add: constructor_frame [OF constructor_returns] zero_period_config_props)
  have "orbitHolder_position (update (Num 1) ?b) =
      orbital_position (?b\<lparr>currentTime := js_add (currentTime ?b) (Num 1)\<rparr>)"
    using a by (rule update_position_orbiting)
  also have "\<dots> = Vector3 NaN (Num 0) NaN"
    using p by (intro orbital_position_zero_period) simp
  finally show ?thesis
    using ok by simp
qed

section \<open>Catalog lookup\<close>

text \<open>
  What \<^verbatim>\<open>addCelestialBody({...PLANETARY_DATA.PLUTO})\<close> would construct: the spread
  of \<open>undefined\<close> has no properties, and the body is a stationary one that does not
  spin.
\<close>

lemma unknown_entry_body:
  "CelestialBody_constructor (spread (get_prop PLANETARY_DATA ''PLUTO'')) =
   Inr \<lparr>orbitalPeriod = Undefined, semiMajorAxis = Undefined, eccentricity = Undefined,
        currentTime = Num 0, rotationSpeed = Num 0, mesh_rotation_y = Num 0,
        orbitHolder_position = Vector3 (Num 0) (Num 0) (Num 0), orbitLine = None\<rparr>"
  by (simp add: get_prop_def PLANETARY_DATA_def CelestialBody_constructor_def Let_def
      rotationSpeed_of_def)

lemma PLUTO_not_in_catalog: "''PLUTO'' \<notin> fst ` set PLANETARY_DATA"
  by (simp add: PLANETARY_DATA_def)

text \<open>
  C7, as the code has it. Looking up a name that is not a key of \<^verbatim>\<open>PLANETARY_DATA\<close>
  raises nothing: the member access evaluates to \<open>undefined\<close>.
\<close>

theorem lookup_unknown_name:
  assumes "name \<notin> fst ` set PLANETARY_DATA"
  shows "PLANETARY_DATA_lookup name = Inr Undefined"
proof -
  have "map_of PLANETARY_DATA name = None"
    using assms by (simp add: map_of_eq_None_iff)
  then show ?thesis
    by (simp add: PLANETARY_DATA_lookup_def get_prop_def)
qed

theorem lookup_unknown_name_witness:
  "''PLUTO'' \<notin> fst ` set PLANETARY_DATA \<and> PLANETARY_DATA_lookup ''PLUTO'' = Inr Undefined"
  using lookup_unknown_name [OF PLUTO_not_in_catalog] PLUTO_not_in_catalog by simp

theorem lookup_PLUTO_counterexample:
  "PLANETARY_DATA_lookup ''PLUTO'' \<noteq> Inl NotFoundError \<and>
   PLANETARY_DATA_lookup ''PLUTO'' = Inr Undefined"
  by (simp add: PLANETARY_DATA_lookup_def get_prop_def PLANETARY_DATA_def)

section \<open>\<open>PI_binary64\<close> against \<open>\<pi>\<close>\<close>

lemma cos_poly_sum: "(\<Sum>m<22. cos_coeff m * x ^ m) = cos_poly x"
  by (simp add: cos_poly_def cos_coeff_def lessThan_nat_numeral fact_numeral)

lemma cos_poly_bounds:
  assumes "0 < x"
  shows "cos_poly x - x ^ 22 / 1124000727777607680000 \<le> cos x"
    and "cos x \<le> cos_poly x + x ^ 22 / 1124000727777607680000"
proof -
  define r where "r = x ^ 22 / 1124000727777607680000"
  have f: "fact 22 = (1124000727777607680000 :: real)"
    by (simp add: fact_numeral)
  obtain t where "cos x = (\<Sum>m<22. cos_coeff m * x ^ m)
      + (cos (t + 1/2 * real 22 * pi) / fact 22) * x ^ 22"
    using Maclaurin_cos_expansion2 [of x 22] assms by auto
  then have eq: "cos x = cos_poly x + cos (t + 1/2 * real 22 * pi) * r"
    by (simp only: cos_poly_sum f r_def times_divide_eq_left times_divide_eq_right)
  have nn: "0 \<le> r"
    using assms by (simp add: r_def)
  have "\<bar>cos (t + 1/2 * real 22 * pi) * r\<bar> = \<bar>cos (t + 1/2 * real 22 * pi)\<bar> * r"
    using nn by (simp add: abs_mult)
  also have "\<dots> \<le> 1 * r"
    by (rule mult_right_mono [OF abs_cos_le_one nn])
  finally have "\<bar>cos (t + 1/2 * real 22 * pi) * r\<bar> \<le> r"
    by simp
  then show "cos_poly x - x ^ 22 / 1124000727777607680000 \<le> cos x"
    and "cos x \<le> cos_poly x + x ^ 22 / 1124000727777607680000"
    using eq unfolding r_def by linarith+
qed

lemma cos_poly_below: "7 / 100000000000000000 < cos_poly (884279719003555 / 562949953421312)"
  by (simp add: cos_poly_def power_divide)

lemma cos_poly_above: "cos_poly (3537118876014221 / 2251799813685248) < - (1 / 10000000000000000)"
  by (simp add: cos_poly_def power_divide)

lemma remainder_small:
  assumes "0 \<le> (x :: real)" and "x \<le> 8 / 5"
  shows "x ^ 22 / 1124000727777607680000 < 3 / 100000000000000000"
proof -
  have "x ^ 22 \<le> (8 / 5) ^ 22"
    by (rule power_mono [OF assms(2) assms(1)])
  also have "\<dots> < 1124000727777607680000 * 3 / 100000000000000000"
    by (simp add: power_divide)
  finally show ?thesis
    by (simp add: field_simps)
qed

lemma PI_binary64_less_pi: "PI_binary64 < pi"
proof (rule ccontr)
  let ?x = "884279719003555 / 562949953421312 :: real"
  assume "\<not> PI_binary64 < pi"
  then have "pi / 2 \<le> ?x"
    by (simp add: PI_binary64_def)
  moreover have "?x \<le> pi"
    using pi_ge_two by simp
  ultimately have "cos ?x \<le> cos (pi / 2)"
    by (intro cos_monotone_0_pi_le) simp_all
  then have "cos ?x \<le> 0"
    by simp
  moreover define c r where "c = cos_poly ?x" and "r = ?x ^ 22 / 1124000727777607680000"
  moreover have "c - r \<le> cos ?x"
    unfolding c_def r_def by (rule cos_poly_bounds) simp
  moreover have "r < 3 / 100000000000000000"
    unfolding r_def by (rule remainder_small) simp_all
  moreover have "7 / 100000000000000000 < c"
    unfolding c_def by (rule cos_poly_below)
  ultimately show False
    by linarith
qed

lemma pi_less_PI_binary64_next: "pi < PI_binary64 + 1 / 2 ^ 50"
proof (rule ccontr)
  let ?x = "3537118876014221 / 2251799813685248 :: real"
  assume "\<not> pi < PI_binary64 + 1 / 2 ^ 50"
  then have "?x \<le> pi / 2"
    by (simp add: PI_binary64_def)
  moreover have "- (pi / 2) \<le> ?x"
    using pi_ge_two by simp
  ultimately have "0 \<le> cos ?x"
    by (intro cos_ge_zero)
  moreover define c r where "c = cos_poly ?x" and "r = ?x ^ 22 / 1124000727777607680000"
  moreover have "cos ?x \<le> c + r"
    unfolding c_def r_def by (rule cos_poly_bounds) simp
  moreover have "r < 3 / 100000000000000000"
    unfolding r_def by (rule remainder_small) simp_all
  moreover have "c < - (1 / 10000000000000000)"
    unfolding c_def by (rule cos_poly_above)
  ultimately show False
    by linarith
qed

text \<open>
  The closing angle \<open>2 * PI_binary64\<close> falls short of a full turn by
  \<open>\<delta> = 2\<pi> - 2 * PI_binary64\<close> with \<open>0 < \<delta> < 2\<^sup>-\<^sup>4\<^sup>9\<close>: its sine is negative and
  its cosine is below 1, both by less than \<open>2\<^sup>-\<^sup>4\<^sup>9\<close>.
\<close>

lemma closing_angle:
  shows "sin (2 * PI_binary64) < 0"
    and "- (1 / 2 ^ 49) < sin (2 * PI_binary64)"
    and "cos (2 * PI_binary64) \<le> 1"
    and "1 - 1 / 2 ^ 49 < cos (2 * PI_binary64)"
proof -
  define d where "d = 2 * pi - 2 * PI_binary64"
  have d0: "0 < d"
    using PI_binary64_less_pi by (simp add: d_def)
  have "d < 2 * (1 / 2 ^ 50)"
    using pi_less_PI_binary64_next unfolding d_def by linarith
  then have d1: "d < 1 / 2 ^ 49"
    by simp
  moreover have "1 / 2 ^ 49 < (2 :: real)"
    by simp
  ultimately have dpi: "d < pi"
    using pi_ge_two by linarith
  have s: "sin (2 * PI_binary64) = - sin d"
    by (simp add: d_def)
  have c: "cos (2 * PI_binary64) = cos d"
    by (simp add: d_def)
  have sd0: "0 < sin d"
    using d0 dpi by (rule sin_gt_zero)
  have sd1: "sin d \<le> d"
    using d0 by (intro sin_x_le_x) simp
  show "sin (2 * PI_binary64) < 0"
    using s sd0 by simp
  show "- (1 / 2 ^ 49) < sin (2 * PI_binary64)"
    using s sd1 d1 by linarith
  show "cos (2 * PI_binary64) \<le> 1"
    by simp
  have "\<bar>sin (d / 2)\<bar> \<le> \<bar>d / 2\<bar>"
    by (rule abs_sin_x_le_abs_x)
  then have "sin (d / 2) ^ 2 \<le> (d / 2) ^ 2"
    by (simp only: abs_le_square_iff)
  moreover have "cos d = 1 - 2 * sin (d / 2) ^ 2"
    using cos_double_sin [of "d / 2"] by simp
  moreover have "(d / 2) ^ 2 \<le> d / 2"
  proof -
    have "d / 2 * (d / 2) \<le> 1 * (d / 2)"
      using d0 d1 by (intro mult_right_mono) simp_all
    then show ?thesis
      by (simp add: power2_eq_square)
  qed
  ultimately have "1 - d \<le> cos d"
    by linarith
  then show "1 - 1 / 2 ^ 49 < cos (2 * PI_binary64)"
    using c d1 by linarith
qed

section \<open>The orbit path\<close>

lemma setupOrbit_loop_eq:
  "setupOrbit_loop a e segments i orbitPoints =
   orbitPoints @ map (orbit_point a e segments) [i..<Suc segments]"
proof (induction a e segments i orbitPoints rule: setupOrbit_loop.induct)
  case (1 a e segments i orbitPoints)
  show ?case
  proof (cases "i \<le> segments")
    case True
    then have "[i..<Suc segments] = i # [Suc i..<Suc segments]"
      by (simp add: upt_conv_Cons)
    with True "1.IH" show ?thesis
      by (subst setupOrbit_loop.simps) simp
  next
    case False
    then show ?thesis
      by (subst setupOrbit_loop.simps) simp
  qed
qed

lemma constructor_orbitLine:
  assumes "CelestialBody_constructor config = Inr body"
  shows "orbitLine body =
     (if truthy (get_prop config ''semiMajorAxis'')
      then Some (map (orbit_point (get_prop config ''semiMajorAxis'')
                        (get_prop config ''eccentricity'') 128) [0..<129])
      else None)"
  using assms
  by (auto simp: CelestialBody_constructor_def Let_def setupOrbit_def setupOrbit_loop_eq)

lemma orbit_point_finite:
  "orbit_point (Number (Num a)) (Number (Num e)) 128 i =
   Vector3 (Num (a * cos ((real i / 128) * (2 * PI_binary64)))) (Num 0)
           (Num (a * sin ((real i / 128) * (2 * PI_binary64)) * (1 - e)))"
  by (simp add: orbit_point_def Let_def mult.assoc mult.commute [of PI_binary64 2])

lemma orbit_points_ends:
  fixes a e :: real
  defines "orbitPoints \<equiv> map (orbit_point (Number (Num a)) (Number (Num e)) 128) [0..<129]"
  shows "hd orbitPoints = Vector3 (Num a) (Num 0) (Num 0)"
    and "last orbitPoints =
         Vector3 (Num (a * cos (2 * PI_binary64))) (Num 0)
                 (Num (a * sin (2 * PI_binary64) * (1 - e)))"
proof -
  have "hd orbitPoints = orbitPoints ! 0"
    unfolding orbitPoints_def by (rule hd_conv_nth) simp
  then show "hd orbitPoints = Vector3 (Num a) (Num 0) (Num 0)"
    by (simp add: orbitPoints_def orbit_point_finite)
  have "last orbitPoints = orbitPoints ! 128"
    unfolding orbitPoints_def by (subst last_conv_nth) simp_all
  then show "last orbitPoints =
         Vector3 (Num (a * cos (2 * PI_binary64))) (Num 0)
                 (Num (a * sin (2 * PI_binary64) * (1 - e)))"
    by (simp add: orbitPoints_def orbit_point_finite)
qed

text \<open>
  C8, as the code has it. For a body constructed with a finite non-zero
  \<^verbatim>\<open>semiMajorAxis\<close> \<open>a\<close> and a finite \<^verbatim>\<open>eccentricity\<close> \<open>e\<close>, the orbit path holds
  exactly 129 points; point \<open>i\<close> (for \<open>i\<close> from 0 to 128) is the parametric formula at
  the angle \<open>(i / 128) * 2 * Math.PI\<close>; and the path is the same after any run of
  ticks, so it does not depend on the elapsed time. The first point is \<open>(a, 0, 0)\<close>.
  The last point is not the first: \<^verbatim>\<open>Math.PI\<close> is not \<open>\<pi>\<close>, the sine of the closing
  angle is not 0, and the last \<open>z\<close> is not 0 (unless \<open>e = 1\<close>). The path closes only
  up to rounding: the last point is within \<open>|a| / 2\<^sup>4\<^sup>9\<close> of the first in \<open>x\<close> and
  within \<open>|a * (1 - e)| / 2\<^sup>4\<^sup>9\<close> in \<open>z\<close>. Apart from the value of \<^verbatim>\<open>Math.PI\<close>,
  numbers are exact reals.
\<close>

theorem orbit_path_sampled:
  assumes "CelestialBody_constructor config = Inr body"
    and "get_prop config ''semiMajorAxis'' = Number (Num a)" and "a \<noteq> 0"
    and "get_prop config ''eccentricity'' = Number (Num e)"
  shows "\<exists>orbitPoints x z. orbitLine (ticks ds body) = Some orbitPoints \<and>
           length orbitPoints = 129 \<and>
           (\<forall>i \<le> 128. orbitPoints ! i =
               Vector3 (Num (a * cos ((real i / 128) * (2 * PI_binary64)))) (Num 0)
                       (Num (a * sin ((real i / 128) * (2 * PI_binary64)) * (1 - e)))) \<and>
           hd orbitPoints = Vector3 (Num a) (Num 0) (Num 0) \<and>
           last orbitPoints = Vector3 (Num x) (Num 0) (Num z) \<and>
           \<bar>x - a\<bar> \<le> \<bar>a\<bar> / 2 ^ 49 \<and>
           \<bar>z\<bar> \<le> \<bar>a * (1 - e)\<bar> / 2 ^ 49 \<and>
           (e \<noteq> 1 \<longrightarrow> z \<noteq> 0 \<and> hd orbitPoints \<noteq> last orbitPoints)"
proof -
  let ?pts = "map (orbit_point (Number (Num a)) (Number (Num e)) 128) [0..<129]"
  let ?x = "a * cos (2 * PI_binary64)"
  let ?z = "a * sin (2 * PI_binary64) * (1 - e)"
  have line: "orbitLine (ticks ds body) = Some ?pts"
    using assms by (simp add: ticks_frame constructor_orbitLine)
  have len: "length ?pts = 129"
    by simp
  have nth: "?pts ! i = Vector3 (Num (a * cos ((real i / 128) * (2 * PI_binary64)))) (Num 0)
                       (Num (a * sin ((real i / 128) * (2 * PI_binary64)) * (1 - e)))"
    if "i \<le> 128" for i
  proof -
    from that have "i < length [0..<129]" and "[0..<129] ! i = i"
      by simp_all
    then have "?pts ! i = orbit_point (Number (Num a)) (Number (Num e)) 128 i"
      by (simp only: nth_map)
    then show ?thesis
      by (simp only: orbit_point_finite)
  qed
  have first: "hd ?pts = Vector3 (Num a) (Num 0) (Num 0)"
    by (rule orbit_points_ends)
  have final: "last ?pts = Vector3 (Num ?x) (Num 0) (Num ?z)"
    by (rule orbit_points_ends)
  have "?x - a = a * (cos (2 * PI_binary64) - 1)"
    by (simp add: algebra_simps)
  then have "\<bar>?x - a\<bar> = \<bar>a\<bar> * \<bar>cos (2 * PI_binary64) - 1\<bar>"
    by (simp add: abs_mult)
  also have "\<dots> \<le> \<bar>a\<bar> * (1 / 2 ^ 49)"
    using closing_angle(3,4) by (intro mult_left_mono) simp_all
  finally have xb: "\<bar>?x - a\<bar> \<le> \<bar>a\<bar> / 2 ^ 49"
    by simp
  have "?z = a * (1 - e) * sin (2 * PI_binary64)"
    by simp
  then have "\<bar>?z\<bar> = \<bar>a * (1 - e)\<bar> * \<bar>sin (2 * PI_binary64)\<bar>"
    by (simp only: abs_mult)
  also have "\<dots> \<le> \<bar>a * (1 - e)\<bar> * (1 / 2 ^ 49)"
    using closing_angle(1,2) by (intro mult_left_mono) simp_all
  finally have zb: "\<bar>?z\<bar> \<le> \<bar>a * (1 - e)\<bar> / 2 ^ 49"
    by simp
  have nz: "?z \<noteq> 0 \<and> hd ?pts \<noteq> last ?pts" if "e \<noteq> 1"
  proof -
    have "?z \<noteq> 0"
      using that assms(3) closing_angle(1) by simp
    then show ?thesis
      by (simp add: first final)
  qed
  show ?thesis
    using line len nth first final xb zb nz by blast
qed

theorem orbit_path_sampled_witness:
  "\<not> isl (CelestialBody_constructor EARTH) \<and>
   get_prop EARTH ''semiMajorAxis'' = Number (Num 1) \<and> (1 :: real) \<noteq> 0 \<and>
   get_prop EARTH ''eccentricity'' = Number (Num 0.017) \<and> (0.017 :: real) \<noteq> 1 \<and>
   (\<exists>orbitPoints.
      orbitLine (ticks [Num 1] (projr (CelestialBody_constructor EARTH))) = Some orbitPoints \<and>
      length orbitPoints = 129 \<and>
      orbitPoints ! 32 =
        Vector3 (Num (1 * cos ((real 32 / 128) * (2 * PI_binary64)))) (Num 0)
                (Num (1 * sin ((real 32 / 128) * (2 * PI_binary64)) * (1 - 0.017))) \<and>
      hd orbitPoints = Vector3 (Num 1) (Num 0) (Num 0) \<and>
      hd orbitPoints \<noteq> last orbitPoints)"
proof -
  have ok: "\<not> isl (CelestialBody_constructor EARTH)"
    by (simp add: CelestialBody_constructor_def Let_def)
  have nz: "(1 :: real) \<noteq> 0" and ne: "(0.017 :: real) \<noteq> 1"
    by simp_all
  obtain orbitPoints where
    "orbitLine (ticks [Num 1] (projr (CelestialBody_constructor EARTH))) = Some orbitPoints"
    "length orbitPoints = 129"
    "\<forall>i \<le> 128. orbitPoints ! i =
        Vector3 (Num (1 * cos ((real i / 128) * (2 * PI_binary64)))) (Num 0)
                (Num (1 * sin ((real i / 128) * (2 * PI_binary64)) * (1 - 0.017)))"
    "hd orbitPoints = Vector3 (Num 1) (Num 0) (Num 0)"
    "(0.017 :: real) \<noteq> 1 \<longrightarrow> hd orbitPoints \<noteq> last orbitPoints"
    using orbit_path_sampled [OF constructor_returns EARTH_props(1) nz EARTH_props(2), of "[Num 1]"]
    by blast
  moreover from this(3) have "orbitPoints ! 32 =
        Vector3 (Num (1 * cos ((real 32 / 128) * (2 * PI_binary64)))) (Num 0)
                (Num (1 * sin ((real 32 / 128) * (2 * PI_binary64)) * (1 - 0.017)))"
    by (rule allE [where x = 32]) simp
  ultimately show ?thesis
    using ok nz ne EARTH_props(1,2) by blast
qed

theorem orbit_path_not_closed_counterexample:
  "hd (the (orbitLine (projr (CelestialBody_constructor EARTH)))) \<noteq>
   last (the (orbitLine (projr (CelestialBody_constructor EARTH))))"
proof -
  let ?pts = "map (orbit_point (Number (Num 1)) (Number (Num 0.017)) 128) [0..<129]"
  have "orbitLine (projr (CelestialBody_constructor EARTH)) = Some ?pts"
    by (simp add: constructor_orbitLine [OF constructor_returns] EARTH_props)
  moreover have "hd ?pts = Vector3 (Num 1) (Num 0) (Num 0)"
    by (rule orbit_points_ends)
  moreover have "last ?pts = Vector3 (Num (1 * cos (2 * PI_binary64))) (Num 0)
      (Num (1 * sin (2 * PI_binary64) * (1 - 0.017)))"
    by (rule orbit_points_ends)
  moreover have "sin (2 * PI_binary64) \<noteq> 0"
    using closing_angle(1) by simp
  ultimately show ?thesis
    by simp
qed

section \<open>The two variants of \<^verbatim>\<open>update\<close>\<close>

lemma setupOrbit_truncate:
  "CelestialBody.truncate (setupOrbit this) = setupOrbit (CelestialBody.truncate this)"
  by (simp add: setupOrbit_def CelestialBody.truncate_def)

lemma constructor_part001_truncate:
  assumes "CelestialBody_constructor_part001 config = Inr body1"
  shows "CelestialBody_constructor config = Inr (CelestialBody.truncate body1)"
proof -
  define isSun where
    "isSun = (case get_prop config ''isSun'' of Undefined \<Rightarrow> Boolean False | v \<Rightarrow> v)"
  define this1 :: CelestialBody_part001 where
    "this1 = \<lparr>orbitalPeriod = get_prop config ''orbitalPeriod'',
              semiMajorAxis = get_prop config ''semiMajorAxis'',
              eccentricity = get_prop config ''eccentricity'',
              currentTime = Num 0,
              rotationSpeed = rotationSpeed_of (get_prop config ''rotationPeriod''),
              mesh_rotation_y = Num 0,
              orbitHolder_position = Vector3 (Num 0) (Num 0) (Num 0),
              orbitLine = None,
              material_uniforms_time = (if truthy isSun then Some (Num 0) else None),
              glow_uniforms_time = (if truthy isSun then Some (Num 0) else None)\<rparr>"
  define this0 :: CelestialBody where
    "this0 = \<lparr>orbitalPeriod = get_prop config ''orbitalPeriod'',
              semiMajorAxis = get_prop config ''semiMajorAxis'',
              eccentricity = get_prop config ''eccentricity'',
              currentTime = Num 0,
              rotationSpeed = rotationSpeed_of (get_prop config ''rotationPeriod''),
              mesh_rotation_y = Num 0,
              orbitHolder_position = Vector3 (Num 0) (Num 0) (Num 0),
              orbitLine = None\<rparr>"
  have tr: "CelestialBody.truncate this1 = this0"
    by (simp add: this1_def this0_def CelestialBody.truncate_def)
  have "CelestialBody_constructor_part001 config =
      Inr (if truthy (get_prop config ''semiMajorAxis'') then setupOrbit this1 else this1)"
    unfolding CelestialBody_constructor_part001_def Let_def this1_def isSun_def by (rule refl)
  with assms have
    "body1 = (if truthy (get_prop config ''semiMajorAxis'') then setupOrbit this1 else this1)"
    by simp
  then have "CelestialBody.truncate body1 =
      (if truthy (get_prop config ''semiMajorAxis'') then setupOrbit this0 else this0)"
    by (simp add: setupOrbit_truncate tr)
  then show ?thesis
    by (simp add: CelestialBody_constructor_def Let_def this0_def)
qed

lemma update_part001_truncate:
  "CelestialBody.truncate (update_part001 d this) =
   update (js_mul d (Num 20)) (CelestialBody.truncate this)"
  by (simp add: update_part001_def update_def Let_def CelestialBody.truncate_def
      orbital_position_def split: option.splits)

lemma ticks_part001_truncate:
  "CelestialBody.truncate (ticks_part001 ds this) =
   ticks (map (\<lambda>d. js_mul d (Num 20)) ds) (CelestialBody.truncate this)"
  by (induction ds arbitrary: this) (simp_all add: update_part001_truncate)

lemma truncate_fields:
  "currentTime (CelestialBody.truncate this) = currentTime this"
  "orbitHolder_position (CelestialBody.truncate this) = orbitHolder_position this"
  "mesh_rotation_y (CelestialBody.truncate this) = mesh_rotation_y this"
  by (simp_all add: CelestialBody.truncate_def)

lemma constructor_part001_returns:
  "CelestialBody_constructor_part001 config =
   Inr (projr (CelestialBody_constructor_part001 config))"
  by (simp add: CelestialBody_constructor_part001_def Let_def)

lemma animate_currentTime:
  "map currentTime (celestialBodies (animate clockDelta scene)) =
   map (\<lambda>body. js_add (currentTime body) (js_mul clockDelta (timeScale scene)))
     (celestialBodies scene)"
  by (simp add: animate_def Let_def update_currentTime)

lemma update_part001_currentTime:
  "currentTime (update_part001 d this) = js_add (currentTime this) (js_mul d (Num 20))"
  by (simp add: update_part001_def Let_def split: option.splits)

lemma animate_part001_currentTime:
  "map currentTime (celestialBodies (animate_part001 clockDelta scene)) =
   map (\<lambda>body. js_add (currentTime body) (js_mul (js_mul clockDelta (timeScale scene)) (Num 20)))
     (celestialBodies scene)"
  by (simp add: animate_part001_def Let_def update_part001_currentTime)

lemma js_mul_one_right: "js_mul a (Num 1) = a"
  by (cases a) simp_all

lemma animate_initial_timeScale:
  "animate clockDelta (SolarSystemScene_constructor\<lparr>celestialBodies := bodies\<rparr>) =
   SolarSystemScene_constructor\<lparr>celestialBodies := map (update clockDelta) bodies\<rparr>"
  by (simp add: animate_def Let_def SolarSystemScene_constructor_def js_mul_one_right)

lemma addCelestialBody_returns: "\<not> isl (addCelestialBody bodyConfig scene)"
  by (simp add: addCelestialBody_def CelestialBody_constructor_def Let_def)

text \<open>
  C9, as the code has it. The two variants compute the position from the elapsed time
  by the same formula and advance the spin alike, but they do not advance the elapsed
  time alike: \<^verbatim>\<open>script.js\<close> adds \<open>deltaTime\<close> in each tick, \<^verbatim>\<open>part_001\<close> adds
  \<open>deltaTime * 20\<close>. For the same configuration, \<^verbatim>\<open>part_001\<close> after the ticks
  \<open>ds\<close> has the elapsed time, the position and the spin angle that \<^verbatim>\<open>script.js\<close>
  has after the ticks \<open>ds\<close> each multiplied by 20.
\<close>

theorem part001_runs_twenty_times_faster:
  assumes "CelestialBody_constructor config = Inr body"
    and "CelestialBody_constructor_part001 config = Inr body1"
  shows "currentTime (ticks_part001 ds body1) =
           currentTime (ticks (map (\<lambda>d. js_mul d (Num 20)) ds) body) \<and>
         orbitHolder_position (ticks_part001 ds body1) =
           orbitHolder_position (ticks (map (\<lambda>d. js_mul d (Num 20)) ds) body) \<and>
         mesh_rotation_y (ticks_part001 ds body1) =
           mesh_rotation_y (ticks (map (\<lambda>d. js_mul d (Num 20)) ds) body) \<and>
         currentTime (update d body) = js_add (currentTime body) d \<and>
         currentTime (update_part001 d body1) = js_add (currentTime body1) (js_mul d (Num 20))"
proof -
  have "body = CelestialBody.truncate body1"
    using assms constructor_part001_truncate [OF assms(2)] by simp
  then have run: "CelestialBody.truncate (ticks_part001 ds body1) =
      ticks (map (\<lambda>d. js_mul d (Num 20)) ds) body"
    by (simp add: ticks_part001_truncate)
  have "currentTime (update_part001 d body1) = js_add (currentTime body1) (js_mul d (Num 20))"
    by (simp add: update_part001_def Let_def split: option.splits)
  then show ?thesis
    using truncate_fields [of "ticks_part001 ds body1"] run
    by (simp add: update_currentTime)
qed

theorem part001_runs_twenty_times_faster_witness:
  "\<not> isl (CelestialBody_constructor EARTH) \<and>
   \<not> isl (CelestialBody_constructor_part001 EARTH) \<and>
   currentTime (ticks_part001 [Num 1, Num 2] (projr (CelestialBody_constructor_part001 EARTH)))
     = Num 60 \<and>
   currentTime (ticks [Num 20, Num 40] (projr (CelestialBody_constructor EARTH))) = Num 60"
proof -
  have ok: "\<not> isl (CelestialBody_constructor EARTH)"
    by (simp add: CelestialBody_constructor_def Let_def)
  have ok1: "\<not> isl (CelestialBody_constructor_part001 EARTH)"
    by (simp add: CelestialBody_constructor_part001_def Let_def)
  have "currentTime (ticks (map Num [20, 40]) (projr (CelestialBody_constructor EARTH)))
      = Num (0 + sum_list [20, 40])"
    by (rule ticks_currentTime) (rule constructor_frame [OF constructor_returns])
  then have t: "currentTime (ticks [Num 20, Num 40] (projr (CelestialBody_constructor EARTH)))
      = Num 60"
    by simp
  show ?thesis
    using part001_runs_twenty_times_faster [OF constructor_returns constructor_part001_returns,
        where ds = "[Num 1, Num 2]" and config = EARTH] ok ok1 t
    by simp
qed

theorem variants_differ_counterexample:
  "currentTime (update_part001 (Num 1) (projr (CelestialBody_constructor_part001 EARTH)))
     \<noteq> currentTime (update (Num 1) (projr (CelestialBody_constructor EARTH)))"
proof -
  have "currentTime (projr (CelestialBody_constructor_part001 EARTH)) = Num 0"
    by (simp add: CelestialBody_constructor_part001_def Let_def setupOrbit_frame)
  then have "currentTime (update_part001 (Num 1) (projr (CelestialBody_constructor_part001 EARTH)))
      = Num 20"
    by (simp add: update_part001_def Let_def split: option.splits)
  moreover have "currentTime (update (Num 1) (projr (CelestialBody_constructor EARTH))) = Num 1"
    by (simp add: update_currentTime constructor_frame [OF constructor_returns])
  ultimately show ?thesis
    by simp
qed

section \<open>A semi-major axis of zero\<close>

lemma get_prop_filter:
  "get_prop (filter (\<lambda>p. fst p \<noteq> k0) obj) k = (if k = k0 then Undefined else get_prop obj k)"
proof -
  have "map_of (filter (\<lambda>p. fst p \<noteq> k0) obj) k = (if k = k0 then None else map_of obj k)"
    by (induction obj) auto
  then show ?thesis
    by (simp add: get_prop_def)
qed

lemma update_falsy_axis:
  assumes "\<not> truthy (semiMajorAxis this)" and "\<not> truthy v"
  shows "update d (this\<lparr>semiMajorAxis := v\<rparr>) = (update d this)\<lparr>semiMajorAxis := v\<rparr>"
  using assms by (simp add: update_def Let_def)

lemma ticks_falsy_axis:
  assumes "\<not> truthy (semiMajorAxis this)" and "\<not> truthy v"
  shows "ticks ds (this\<lparr>semiMajorAxis := v\<rparr>) = (ticks ds this)\<lparr>semiMajorAxis := v\<rparr>"
  using assms
  by (induction ds arbitrary: this) (simp_all add: update_falsy_axis update_semiMajorAxis)

text \<open>
  C10. A body constructed with \<^verbatim>\<open>semiMajorAxis: 0\<close> gets no orbit path and is at the
  origin after every run of ticks; and after every run of ticks it is, field by field,
  the body constructed from the same configuration without the property
  \<^verbatim>\<open>semiMajorAxis\<close>, except for the stored value of \<^verbatim>\<open>semiMajorAxis\<close> itself.
\<close>

theorem zero_semiMajorAxis_like_absent:
  assumes "get_prop config ''semiMajorAxis'' = Number (Num 0)"
    and "CelestialBody_constructor config = Inr body"
    and "CelestialBody_constructor (filter (\<lambda>p. fst p \<noteq> ''semiMajorAxis'') config) = Inr body'"
  shows "orbitLine (ticks ds body) = None \<and>
         orbitHolder_position (ticks ds body) = Vector3 (Num 0) (Num 0) (Num 0) \<and>
         ticks ds body = (ticks ds body')\<lparr>semiMajorAxis := Number (Num 0)\<rparr>"
proof -
  have falsy: "\<not> truthy (semiMajorAxis body)"
    using assms(1,2) by (simp add: constructor_semiMajorAxis)
  have line: "orbitLine (ticks ds body) = None"
    using assms(1,2) by (simp add: ticks_frame constructor_orbitLine)
  have "orbitHolder_position (ticks ds body) = orbitHolder_position body"
    using falsy by (rule ticks_position_stationary)
  then have pos: "orbitHolder_position (ticks ds body) = Vector3 (Num 0) (Num 0) (Num 0)"
    using assms(2) by (simp add: constructor_position)
  have absent: "\<not> truthy (semiMajorAxis body')"
    using assms(3) by (simp add: constructor_semiMajorAxis get_prop_filter)
  have "body = body'\<lparr>semiMajorAxis := Number (Num 0)\<rparr>"
    using assms by (auto simp: CelestialBody_constructor_def Let_def get_prop_filter)
  then have "ticks ds body = (ticks ds body')\<lparr>semiMajorAxis := Number (Num 0)\<rparr>"
    using absent by (simp add: ticks_falsy_axis)
  then show ?thesis
    using line pos by simp
qed

theorem zero_semiMajorAxis_like_absent_witness:
  "get_prop zero_axis_config ''semiMajorAxis'' = Number (Num 0) \<and>
   \<not> isl (CelestialBody_constructor zero_axis_config) \<and>
   \<not> isl (CelestialBody_constructor (filter (\<lambda>p. fst p \<noteq> ''semiMajorAxis'') zero_axis_config)) \<and>
   orbitLine (ticks [Num 1, Num 2] (projr (CelestialBody_constructor zero_axis_config))) = None \<and>
   orbitHolder_position (ticks [Num 1, Num 2] (projr (CelestialBody_constructor zero_axis_config)))
     = Vector3 (Num 0) (Num 0) (Num 0)"
proof -
  have a: "get_prop zero_axis_config ''semiMajorAxis'' = Number (Num 0)"
    by (simp add: get_prop_def zero_axis_config_def)
  have ok: "\<not> isl (CelestialBody_constructor zero_axis_config)"
    by (simp add: CelestialBody_constructor_def Let_def)
  have ok': "\<not> isl (CelestialBody_constructor
      (filter (\<lambda>p. fst p \<noteq> ''semiMajorAxis'') zero_axis_config))"
    by (simp add: CelestialBody_constructor_def Let_def)
  show ?thesis
    using zero_semiMajorAxis_like_absent [OF a constructor_returns constructor_returns,
        where ds = "[Num 1, Num 2]"] a ok ok'
    by blast
qed

end
